theory Spec2Isabelle
  imports Main "HOL-Library.Sublist"
begin

section \<open>Data model\<close>

text \<open>
  Go strings are byte sequences; the program's literals are UTF-8. A Go \<open>string\<close> is
  modelled as an Isabelle \<open>string\<close> (a list of 8-bit characters), one \<open>char\<close> per
  byte, and every non-ASCII literal of the source is written out as its UTF-8 bytes.
\<close>

definition groupWater :: string where
  "groupWater = [CHR 0xD0, CHR 0x93, CHR 0xD1, CHR 0x80, CHR 0xD1, CHR 0x83, CHR 0xD0, CHR 0xBF,
     CHR 0xD0, CHR 0xB0] @ '' 4.1''"

definition groupPower :: string where
  "groupPower = [CHR 0xD0, CHR 0x93, CHR 0xD1, CHR 0x80, CHR 0xD1, CHR 0x83, CHR 0xD0, CHR 0xBF,
     CHR 0xD0, CHR 0xB0] @ '' 6.1''"

definition labelWater :: string where
  "labelWater = ''*'' @ [CHR 0xF0, CHR 0x9F, CHR 0x92, CHR 0xA7] @ '' '' @
     [CHR 0xD0, CHR 0xB2, CHR 0xD0, CHR 0xBE, CHR 0xD0, CHR 0xB4, CHR 0xD0, CHR 0xB8] @ '' '' @
     [CHR 0xD0, CHR 0xBD, CHR 0xD0, CHR 0xB5] @ '' '' @
     [CHR 0xD0, CHR 0xB1, CHR 0xD1, CHR 0x83, CHR 0xD0, CHR 0xB4, CHR 0xD0, CHR 0xB5] @ ''*''"

definition labelPower :: string where
  "labelPower = ''*'' @ [CHR 0xF0, CHR 0x9F, CHR 0x92, CHR 0xA1] @ '' '' @
     [CHR 0xD1, CHR 0x81, CHR 0xD0, CHR 0xB2, CHR 0xD1, CHR 0x96, CHR 0xD1, CHR 0x82, CHR 0xD0,
      CHR 0xBB, CHR 0xD0, CHR 0xB0] @ '' '' @
     [CHR 0xD0, CHR 0xBD, CHR 0xD0, CHR 0xB5] @ '' '' @
     [CHR 0xD0, CHR 0xB1, CHR 0xD1, CHR 0x83, CHR 0xD0, CHR 0xB4, CHR 0xD0, CHR 0xB5] @ ''*''"

text \<open>
  \<^verbatim>\<open>type GroupInfo struct { Text string; Minutes int }\<close>,
  \<^verbatim>\<open>type DayInfo struct { Date string; Groups map[string]GroupInfo }\<close>,
  \<^verbatim>\<open>type State struct { Days []DayInfo }\<close>.
  The Go map is a partial function from keys to values; the slice is a list.
\<close>

record GroupInfo =
  Text :: string
  Minutes :: int

record DayInfo =
  Date :: string
  Groups :: "string \<rightharpoonup> GroupInfo"

record State =
  Days :: "DayInfo list"



section \<open>Change detection: compareDay\<close>




section \<open>The state store: findDay and upsertDay\<close>

text \<open>
  \<open>findDay\<close> returns a pointer to the first day with the given date, or nil; the model
  returns the day it points to.
\<close>

fun findDayIn :: "DayInfo list \<Rightarrow> string \<Rightarrow> DayInfo option" where
  "findDayIn [] date = None"
| "findDayIn (d # ds) date = (if Date d = date then Some d else findDayIn ds date)"

definition findDay :: "State \<Rightarrow> string \<Rightarrow> DayInfo option" where
  "findDay st date = findDayIn (Days st) date"

text \<open>
  The loop of \<open>upsertDay\<close>: overwrite the first entry with the same date and stop
  (\<open>break\<close>); the flag tells whether one was found.
\<close>

fun upsertIn :: "DayInfo list \<Rightarrow> DayInfo \<Rightarrow> DayInfo list \<times> bool" where
  "upsertIn [] day = ([], False)"
| "upsertIn (d # ds) day =
     (if Date d = Date day then (day # ds, True)
      else (let (ds', found) = upsertIn ds day in (d # ds', found)))"

definition upsertDay :: "State \<Rightarrow> DayInfo \<Rightarrow> State" where
  "upsertDay st day =
     (let (ds, found) = upsertIn (Days st) day
      in if \<not> found then st\<lparr>Days := ds @ [day]\<rparr> else st\<lparr>Days := ds\<rparr>)"

section \<open>Calendar dates and the time layouts the program uses\<close>

text \<open>
  Digits, as \<^verbatim>\<open>'0' <= c && c <= '9'\<close> and \<^verbatim>\<open>c - '0'\<close> on bytes, and the digit
  table \<^verbatim>\<open>"0123456789"\<close> of the formatter.
\<close>

definition isDigit :: "char \<Rightarrow> bool" where
  "isDigit c \<longleftrightarrow> (48::nat) \<le> of_char c \<and> of_char c \<le> (57::nat)"

definition digitVal :: "char \<Rightarrow> nat" where
  "digitVal c = of_char c - 48"

definition digitChar :: "nat \<Rightarrow> char" where
  "digitChar d = ''0123456789'' ! d"

text \<open>
  A \<^verbatim>\<open>time.Time\<close> enters the program's logic only through its calendar date: the
  dates are formatted with the layouts \<^verbatim>\<open>02.01.2006\<close>, \<^verbatim>\<open>2006-01-02\<close> and
  \<^verbatim>\<open>02.01\<close>, and moved by \<^verbatim>\<open>AddDate(0, 0, -1)\<close>. The model of a \<open>Time\<close> is that
  date in the proleptic Gregorian calendar (time of day and zone are left out).
  The zero \<open>Time\<close> is January 1 of year 1.
\<close>

record Time =
  Year :: int
  Month :: nat
  Day :: nat

definition zeroTime :: Time where
  "zeroTime = \<lparr>Year = 1, Month = 1, Day = 1\<rparr>"

definition isLeap :: "int \<Rightarrow> bool" where
  "isLeap y \<longleftrightarrow> y mod 4 = 0 \<and> (y mod 100 \<noteq> 0 \<or> y mod 400 = 0)"

definition daysIn :: "nat \<Rightarrow> int \<Rightarrow> nat" where
  "daysIn m y =
     (if m = 2 then (if isLeap y then 29 else 28)
      else if m = 4 \<or> m = 6 \<or> m = 9 \<or> m = 11 then 30 else 31)"

text \<open>
  \<^verbatim>\<open>appendInt(b, x, width)\<close> of package time: a minus sign for a negative number, then
  the decimal digits, padded with zeros on the left to the width.
\<close>

fun decimal :: "nat \<Rightarrow> string" where
  "decimal n = (if n < 10 then [digitChar n] else decimal (n div 10) @ [digitChar (n mod 10)])"

declare decimal.simps [simp del]

definition appendInt :: "int \<Rightarrow> nat \<Rightarrow> string" where
  "appendInt x width =
     (let ds = decimal (nat \<bar>x\<bar>)
      in (if x < 0 then ''-'' else []) @ replicate (width - length ds) CHR ''0'' @ ds)"

text \<open>\<^verbatim>\<open>t.Format("2006-01-02")\<close>, \<^verbatim>\<open>t.Format("02.01.2006")\<close> and \<^verbatim>\<open>t.Format("02.01")\<close>.\<close>

definition formatISO :: "Time \<Rightarrow> string" where
  "formatISO t = appendInt (Year t) 4 @ ''-'' @ appendInt (int (Month t)) 2 @ ''-'' @
     appendInt (int (Day t)) 2"

definition formatDMY :: "Time \<Rightarrow> string" where
  "formatDMY t = appendInt (int (Day t)) 2 @ ''.'' @ appendInt (int (Month t)) 2 @ ''.'' @
     appendInt (Year t) 4"

definition formatDM :: "Time \<Rightarrow> string" where
  "formatDM t = appendInt (int (Day t)) 2 @ ''.'' @ appendInt (int (Month t)) 2"

text \<open>
  \<^verbatim>\<open>t.AddDate(0, 0, -1)\<close>: the day before; day 0 of a month is normalised to the last
  day of the month before it.
\<close>

definition addDatePrevDay :: "Time \<Rightarrow> Time" where
  "addDatePrevDay t =
     (if 1 < Day t then t\<lparr>Day := Day t - 1\<rparr>
      else if 1 < Month t then t\<lparr>Month := Month t - 1, Day := daysIn (Month t - 1) (Year t)\<rparr>
      else t\<lparr>Year := Year t - 1, Month := 12, Day := 31\<rparr>)"

text \<open>
  \<^verbatim>\<open>time.Parse("2006-01-02", v)\<close>: four digits, a hyphen, two digits, a hyphen, two
  digits and nothing more; the month must be 1 to 12 and the day must exist in that month.
  \<open>None\<close> stands for the error return.
\<close>

fun getnumFixed :: "string \<Rightarrow> (nat \<times> string) option" where
  "getnumFixed (c1 # c2 # rest) =
     (if isDigit c1 \<and> isDigit c2 then Some (digitVal c1 * 10 + digitVal c2, rest) else None)"
| "getnumFixed _ = None"

fun getYear :: "string \<Rightarrow> (nat \<times> string) option" where
  "getYear (c1 # c2 # c3 # c4 # rest) =
     (if isDigit c1 \<and> isDigit c2 \<and> isDigit c3 \<and> isDigit c4
      then Some (((digitVal c1 * 10 + digitVal c2) * 10 + digitVal c3) * 10 + digitVal c4, rest)
      else None)"
| "getYear _ = None"

fun skipLit :: "char \<Rightarrow> string \<Rightarrow> string option" where
  "skipLit c [] = None"
| "skipLit c (x # xs) = (if x = c then Some xs else None)"

definition parseDate :: "string \<Rightarrow> Time option" where
  "parseDate v =
     (case getYear v of None \<Rightarrow> None | Some (y, v1) \<Rightarrow>
      case skipLit CHR ''-'' v1 of None \<Rightarrow> None | Some v2 \<Rightarrow>
      case getnumFixed v2 of None \<Rightarrow> None | Some (m, v3) \<Rightarrow>
      if m \<le> 0 \<or> 12 < m then None else
      case skipLit CHR ''-'' v3 of None \<Rightarrow> None | Some v4 \<Rightarrow>
      case getnumFixed v4 of None \<Rightarrow> None | Some (d, v5) \<Rightarrow>
      if v5 \<noteq> [] then None
      else if d < 1 \<or> daysIn m (int y) < d then None
      else Some \<lparr>Year = int y, Month = m, Day = d\<rparr>)"

text \<open>
  \<open>toDM\<close> drops the error of the parse: on an error the value is the zero \<open>Time\<close>.
\<close>

definition toDM :: "string \<Rightarrow> string" where
  "toDM date = formatDM (case parseDate date of None \<Rightarrow> zeroTime | Some t \<Rightarrow> t)"

section \<open>Retention: keepLastTwo\<close>

text \<open>Reading a \<^verbatim>\<open>map[string]bool\<close> gives \<open>false\<close> for a missing key.\<close>

definition lookupBool :: "(string \<rightharpoonup> bool) \<Rightarrow> string \<Rightarrow> bool" where
  "lookupBool m k = (case m k of None \<Rightarrow> False | Some b \<Rightarrow> b)"

definition cutoffStep :: "(string \<rightharpoonup> bool) \<Rightarrow> Time \<Rightarrow> (string \<rightharpoonup> bool)" where
  "cutoffStep cutoff d = (cutoff(formatISO d \<mapsto> True))(formatISO (addDatePrevDay d) \<mapsto> True)"

definition keepStep :: "(string \<rightharpoonup> bool) \<Rightarrow> DayInfo list \<Rightarrow> DayInfo \<Rightarrow> DayInfo list" where
  "keepStep cutoff kept d = (if lookupBool cutoff (Date d) then kept @ [d] else kept)"

definition keepLastTwo :: "State \<Rightarrow> Time list \<Rightarrow> State" where
  "keepLastTwo st refs =
     (let cutoff = foldl cutoffStep Map.empty refs;
          kept = foldl (keepStep cutoff) [] (Days st)
      in st\<lparr>Days := kept\<rparr>)"

section \<open>The message: formatLine and postSchedule\<close>

text \<open>The \<^verbatim>\<open>"%s: %s"\<close> and \<^verbatim>\<open>"%s: .."\<close> (the no-data marker) formats of \<open>formatLine\<close>.\<close>

definition formatLine :: "DayInfo \<Rightarrow> string \<Rightarrow> string \<Rightarrow> string" where
  "formatLine d grp label =
     (case Groups d grp of
        Some g \<Rightarrow> label @ '': '' @ Text g
      | None \<Rightarrow> label @ '': '' @ [CHR 0xD0, CHR 0xBD] @ ''/'' @ [CHR 0xD0, CHR 0xB4])"

text \<open>\<^verbatim>\<open>strings.Join(elems, sep)\<close>.\<close>

fun join :: "string list \<Rightarrow> string \<Rightarrow> string" where
  "join [] sep = []"
| "join [x] sep = x"
| "join (x # y # ys) sep = x @ sep @ join (y # ys) sep"

text \<open>The three title formats, up to their \<^verbatim>\<open>%s\<close>.\<close>

definition titleNew :: string where
  "titleNew = [CHR 0xD0, CHR 0xB3, CHR 0xD1, CHR 0x80, CHR 0xD0, CHR 0xB0, CHR 0xD1, CHR 0x84,
     CHR 0xD1, CHR 0x96, CHR 0xD0, CHR 0xBA] @ '' '' @ [CHR 0xD0, CHR 0xBD, CHR 0xD0, CHR 0xB0] @ '' ''"

definition titleWorse :: string where
  "titleWorse = ''upd. '' @ [CHR 0xF0, CHR 0x9F, CHR 0x98, CHR 0xA9] @ '' '' @
     [CHR 0xD0, CHR 0xBD, CHR 0xD0, CHR 0xB0] @ '' ''"

definition titleBetter :: string where
  "titleBetter = ''upd. '' @ [CHR 0xF0, CHR 0x9F, CHR 0x8D, CHR 0xBE] @ '' '' @
     [CHR 0xD0, CHR 0xBD, CHR 0xD0, CHR 0xB0] @ '' ''"

text \<open>
  \<open>postSchedule\<close> builds the message and hands it to \<open>sendTelegram\<close> with the token and
  the chat identifier; the model is the message it hands over.
\<close>

definition postSchedule :: "DayInfo \<Rightarrow> bool \<Rightarrow> bool \<Rightarrow> string" where
  "postSchedule d isUpdate more' =
     (let title = titleNew @ toDM (Date d);
          title = (if isUpdate then (if more' then titleWorse @ toDM (Date d)
                                     else titleBetter @ toDM (Date d))
                   else title);
          lines = [];
          lines = lines @ [''*'' @ title @ ''*''];
          lines = lines @ [formatLine d groupPower labelPower];
          lines = lines @ [formatLine d groupWater labelWater]
      in join lines [CHR 0x0A])"

section \<open>Properties of compareDay\<close>


lemma groups_distinct: "groupPower \<noteq> groupWater"
  by (simp add: groupPower_def groupWater_def)







section \<open>Properties of upsertDay and findDay\<close>

lemma upsertIn_found:
  "snd (upsertIn ds day) \<longleftrightarrow> Date day \<in> Date ` set ds"
  by (induction ds) (auto split: prod.splits)

lemma upsertIn_dates:
  "map Date (fst (upsertIn ds day)) = map Date ds"
  by (induction ds) (auto split: prod.splits)

lemma upsertIn_others:
  "filter (\<lambda>d. Date d \<noteq> Date day) (fst (upsertIn ds day)) = filter (\<lambda>d. Date d \<noteq> Date day) ds"
  by (induction ds) (auto split: prod.splits)

lemma upsertIn_find:
  "Date day \<in> Date ` set ds \<Longrightarrow> findDayIn (fst (upsertIn ds day)) (Date day) = Some day"
  by (induction ds) (auto split: prod.splits)

lemma findDayIn_append:
  "findDayIn (xs @ ys) date =
     (case findDayIn xs date of Some d \<Rightarrow> Some d | None \<Rightarrow> findDayIn ys date)"
  by (induction xs) auto

lemma findDayIn_None:
  "date \<notin> Date ` set ds \<Longrightarrow> findDayIn ds date = None"
  by (induction ds) auto

lemma upsertIn_absent:
  "Date day \<notin> Date ` set ds \<Longrightarrow> fst (upsertIn ds day) = ds"
  by (induction ds) (auto split: prod.splits)

lemma upsertDay_Days:
  "Days (upsertDay st day) =
     (if Date day \<in> Date ` set (Days st) then fst (upsertIn (Days st) day)
      else Days st @ [day])"
proof -
  obtain ds found where p: "upsertIn (Days st) day = (ds, found)"
    by (cases "upsertIn (Days st) day")
  have f: "found \<longleftrightarrow> Date day \<in> Date ` set (Days st)"
    using upsertIn_found [of "Days st" day] p by simp
  have a: "\<not> found \<Longrightarrow> ds = Days st"
    using upsertIn_absent [of day "Days st"] p f by simp
  show ?thesis
    using p f a by (auto simp: upsertDay_def)
qed

text \<open>
  Claim C10. On a state whose days have pairwise distinct dates, \<open>upsertDay\<close> keeps the
  dates distinct; it replaces the entry with the same date (the list keeps its length and
  its dates) or, when there is none, appends the record; the days with another date are
  the same as before, in the same order; and afterwards \<open>findDay\<close> on the record's date
  returns the record.
\<close>

theorem upsertDay_unique:
  "distinct (map Date (Days st)) \<Longrightarrow>
     distinct (map Date (Days (upsertDay st day)))
   \<and> (if Date day \<in> Date ` set (Days st)
      then map Date (Days (upsertDay st day)) = map Date (Days st)
      else Days (upsertDay st day) = Days st @ [day])
   \<and> filter (\<lambda>d. Date d \<noteq> Date day) (Days (upsertDay st day))
       = filter (\<lambda>d. Date d \<noteq> Date day) (Days st)
   \<and> findDay (upsertDay st day) (Date day) = Some day"
proof (cases "Date day \<in> Date ` set (Days st)")
  case True
  assume "distinct (map Date (Days st))"
  with True show ?thesis
    by (simp add: upsertDay_Days upsertIn_dates upsertIn_others upsertIn_find findDay_def)
next
  case False
  assume "distinct (map Date (Days st))"
  with False show ?thesis
    by (simp add: upsertDay_Days findDay_def findDayIn_append findDayIn_None)
qed

theorem upsertDay_unique_witness:
  "distinct (map Date [\<lparr>Date = ''2025-01-10'', Groups = Map.empty\<rparr>,
                       \<lparr>Date = ''2025-01-11'', Groups = Map.empty\<rparr>])
   \<and> Days (upsertDay \<lparr>Days = [\<lparr>Date = ''2025-01-10'', Groups = Map.empty\<rparr>,
                              \<lparr>Date = ''2025-01-11'', Groups = Map.empty\<rparr>]\<rparr>
              \<lparr>Date = ''2025-01-11'', Groups = [groupPower \<mapsto> \<lparr>Text = ''x'', Minutes = 5\<rparr>]\<rparr>)
     = [\<lparr>Date = ''2025-01-10'', Groups = Map.empty\<rparr>,
        \<lparr>Date = ''2025-01-11'', Groups = [groupPower \<mapsto> \<lparr>Text = ''x'', Minutes = 5\<rparr>]\<rparr>]
   \<and> findDay (upsertDay \<lparr>Days = [\<lparr>Date = ''2025-01-10'', Groups = Map.empty\<rparr>,
                                 \<lparr>Date = ''2025-01-11'', Groups = Map.empty\<rparr>]\<rparr>
              \<lparr>Date = ''2025-01-11'', Groups = [groupPower \<mapsto> \<lparr>Text = ''x'', Minutes = 5\<rparr>]\<rparr>)
        ''2025-01-11''
     = Some \<lparr>Date = ''2025-01-11'', Groups = [groupPower \<mapsto> \<lparr>Text = ''x'', Minutes = 5\<rparr>]\<rparr>"
  using upsertDay_unique [of
      "\<lparr>Days = [\<lparr>Date = ''2025-01-10'', Groups = Map.empty\<rparr>,
                \<lparr>Date = ''2025-01-11'', Groups = Map.empty\<rparr>]\<rparr>"
      "\<lparr>Date = ''2025-01-11'', Groups = [groupPower \<mapsto> \<lparr>Text = ''x'', Minutes = 5\<rparr>]\<rparr>"]
  by (simp add: upsertDay_def)

section \<open>Properties of the date layouts\<close>

lemma isDigit_iff: "isDigit c \<longleftrightarrow> c \<in> set ''0123456789''"
proof
  assume "isDigit c"
  then have "(of_char c :: nat) \<in> {48, 49, 50, 51, 52, 53, 54, 55, 56, 57}"
    unfolding isDigit_def by (simp; arith)
  then have "(of_char c :: nat) \<in> of_char ` set ''0123456789''"
    by simp
  then obtain d where "d \<in> set ''0123456789''" "(of_char c :: nat) = of_char d"
    by blast
  then show "c \<in> set ''0123456789''"
    by simp
next
  assume "c \<in> set ''0123456789''"
  then show "isDigit c" by (auto simp: isDigit_def)
qed

lemma digitChar_digitVal: "isDigit c \<Longrightarrow> digitChar (digitVal c) = c"
  by (auto simp: isDigit_iff digitChar_def digitVal_def)

lemma digitVal_lt: "isDigit c \<Longrightarrow> digitVal c < 10"
  by (auto simp: isDigit_iff digitVal_def)

lemma digitChar_in: "k < 10 \<Longrightarrow> digitChar k \<in> set ''0123456789''"
  unfolding digitChar_def by (rule nth_mem) simp

lemma decimal_digits: "set (decimal n) \<subseteq> set ''0123456789''"
proof (induction n rule: decimal.induct)
  case (1 n)
  show ?case
  proof (cases "n < 10")
    case True
    then show ?thesis
      using digitChar_in [of n] by (subst decimal.simps) simp
  next
    case False
    have "digitChar (n mod 10) \<in> set ''0123456789''"
      by (rule digitChar_in) simp
    with False 1 show ?thesis
      by (subst decimal.simps) simp
  qed
qed

lemma decimal_no_newline: "CHR 0x0A \<notin> set (decimal n)"
proof -
  have "CHR 0x0A \<notin> set ''0123456789''" by simp
  then show ?thesis using decimal_digits [of n] by blast
qed

lemma appendInt_no_newline: "0 \<le> x \<Longrightarrow> CHR 0x0A \<notin> set (appendInt x w)"
  by (simp add: appendInt_def Let_def decimal_no_newline)

lemma formatDM_no_newline: "CHR 0x0A \<notin> set (formatDM t)"
  by (simp add: formatDM_def appendInt_no_newline)

lemma toDM_no_newline: "CHR 0x0A \<notin> set (toDM date)"
  by (simp add: toDM_def formatDM_no_newline)

lemma decimal_two: "a < 10 \<Longrightarrow> b < 10 \<Longrightarrow>
  decimal (a * 10 + b) = (if a = 0 then [digitChar b] else [digitChar a, digitChar b])"
  by (subst decimal.simps) (auto simp: decimal.simps [of a])

lemma appendInt_two: "a < 10 \<Longrightarrow> b < 10 \<Longrightarrow>
  appendInt (int (a * 10 + b)) 2 = [digitChar a, digitChar b]"
  by (simp add: appendInt_def decimal_two del: of_nat_add of_nat_mult) (simp add: digitChar_def)

lemma parseDate_wellformed:
  assumes dig: "isDigit y1" "isDigit y2" "isDigit y3" "isDigit y4"
      "isDigit m1" "isDigit m2" "isDigit d1" "isDigit d2"
    and y: "y = ((digitVal y1 * 10 + digitVal y2) * 10 + digitVal y3) * 10 + digitVal y4"
    and m: "m = digitVal m1 * 10 + digitVal m2"
    and d: "d = digitVal d1 * 10 + digitVal d2"
    and rng: "1 \<le> m" "m \<le> 12" "1 \<le> d" "d \<le> daysIn m (int y)"
  shows "parseDate ([y1, y2, y3, y4] @ ''-'' @ [m1, m2] @ ''-'' @ [d1, d2])
           = Some \<lparr>Year = int y, Month = m, Day = d\<rparr>"
proof -
  have 1: "getYear ([y1, y2, y3, y4] @ ''-'' @ [m1, m2] @ ''-'' @ [d1, d2])
             = Some (y, ''-'' @ [m1, m2] @ ''-'' @ [d1, d2])"
    using dig y by simp
  have 2: "getnumFixed ([m1, m2] @ ''-'' @ [d1, d2]) = Some (m, ''-'' @ [d1, d2])"
    using dig m by simp
  have 3: "getnumFixed [d1, d2] = Some (d, [])"
    using dig d by simp
  have 4: "\<not> (m \<le> 0 \<or> 12 < m)" "\<not> (d < 1 \<or> daysIn m (int y) < d)"
    using rng by auto
  show ?thesis
    unfolding parseDate_def using 1 2 3 4 by simp
qed

lemma toDM_wellformed:
  assumes dig: "isDigit y1" "isDigit y2" "isDigit y3" "isDigit y4"
      "isDigit m1" "isDigit m2" "isDigit d1" "isDigit d2"
    and rng: "1 \<le> digitVal m1 * 10 + digitVal m2" "digitVal m1 * 10 + digitVal m2 \<le> 12"
      "1 \<le> digitVal d1 * 10 + digitVal d2"
      "digitVal d1 * 10 + digitVal d2 \<le> daysIn (digitVal m1 * 10 + digitVal m2)
          (int (((digitVal y1 * 10 + digitVal y2) * 10 + digitVal y3) * 10 + digitVal y4))"
  shows "toDM ([y1, y2, y3, y4] @ ''-'' @ [m1, m2] @ ''-'' @ [d1, d2]) = [d1, d2] @ ''.'' @ [m1, m2]"
proof -
  have "parseDate ([y1, y2, y3, y4] @ ''-'' @ [m1, m2] @ ''-'' @ [d1, d2])
     = Some \<lparr>Year = int (((digitVal y1 * 10 + digitVal y2) * 10 + digitVal y3) * 10 + digitVal y4),
             Month = digitVal m1 * 10 + digitVal m2, Day = digitVal d1 * 10 + digitVal d2\<rparr>"
    using dig rng by (intro parseDate_wellformed) auto
  then show ?thesis
    using dig
    by (simp add: toDM_def formatDM_def appendInt_two digitVal_lt digitChar_digitVal
        del: of_nat_add of_nat_mult)
qed

section \<open>Properties of keepLastTwo\<close>

lemma lookupBool_empty: "lookupBool Map.empty k = False"
  by (simp add: lookupBool_def)

lemma foldl_cutoff_dom:
  "lookupBool (foldl cutoffStep c refs) k \<longleftrightarrow>
     lookupBool c k \<or> (\<exists>r\<in>set refs. k = formatISO r \<or> k = formatISO (addDatePrevDay r))"
  by (induction refs arbitrary: c) (auto simp: cutoffStep_def lookupBool_def)

lemma foldl_keep: "foldl (keepStep c) acc ds = acc @ filter (\<lambda>d. lookupBool c (Date d)) ds"
  by (induction ds arbitrary: acc) (auto simp: keepStep_def)

lemma fmt_2025_01_10: "formatISO \<lparr>Year = 2025, Month = Suc 0, Day = 10\<rparr> = ''2025-01-10''"
  by code_simp

lemma fmt_2025_01_11: "formatISO \<lparr>Year = 2025, Month = Suc 0, Day = 11\<rparr> = ''2025-01-11''"
  by code_simp

lemma prev_2025_01_10:
  "formatISO (addDatePrevDay \<lparr>Year = 2025, Month = Suc 0, Day = 10\<rparr>) = ''2025-01-09''"
  by code_simp

lemma prev_2025_01_11:
  "formatISO (addDatePrevDay \<lparr>Year = 2025, Month = Suc 0, Day = 11\<rparr>) = ''2025-01-10''"
  by code_simp

lemma prev_month_start:
  "formatISO (addDatePrevDay \<lparr>Year = 2024, Month = 3, Day = 1\<rparr>) = ''2024-02-29''"
  "formatISO (addDatePrevDay \<lparr>Year = 2025, Month = 3, Day = 1\<rparr>) = ''2025-02-28''"
  "formatISO (addDatePrevDay \<lparr>Year = 2025, Month = 1, Day = 1\<rparr>) = ''2024-12-31''"
  by code_simp+

text \<open>
  Claim C5. \<open>keepLastTwo\<close> retains, in their order, exactly the days whose date string is
  the \<^verbatim>\<open>2006-01-02\<close> form of a reference date or of the day before a reference date,
  and removes all others. With the reference dates 2025-01-10 and 2025-01-11, a day dated
  2025-01-08 is removed and the days dated 2025-01-09, 2025-01-10 and 2025-01-11 stay.
\<close>

theorem keepLastTwo_retains:
  "Days (keepLastTwo st refs) =
     filter (\<lambda>d. \<exists>r\<in>set refs. Date d = formatISO r \<or> Date d = formatISO (addDatePrevDay r))
       (Days st)"
  by (simp add: keepLastTwo_def foldl_keep foldl_cutoff_dom lookupBool_empty)

theorem keepLastTwo_retains_witness:
  "Days (keepLastTwo
      \<lparr>Days = [\<lparr>Date = ''2025-01-08'', Groups = Map.empty\<rparr>,
               \<lparr>Date = ''2025-01-09'', Groups = Map.empty\<rparr>,
               \<lparr>Date = ''2025-01-10'', Groups = Map.empty\<rparr>,
               \<lparr>Date = ''2025-01-11'', Groups = Map.empty\<rparr>]\<rparr>
      [\<lparr>Year = 2025, Month = 1, Day = 10\<rparr>, \<lparr>Year = 2025, Month = 1, Day = 11\<rparr>])
    = [\<lparr>Date = ''2025-01-09'', Groups = Map.empty\<rparr>,
       \<lparr>Date = ''2025-01-10'', Groups = Map.empty\<rparr>,
       \<lparr>Date = ''2025-01-11'', Groups = Map.empty\<rparr>]"
  using keepLastTwo_retains [of
      "\<lparr>Days = [\<lparr>Date = ''2025-01-08'', Groups = Map.empty\<rparr>,
               \<lparr>Date = ''2025-01-09'', Groups = Map.empty\<rparr>,
               \<lparr>Date = ''2025-01-10'', Groups = Map.empty\<rparr>,
               \<lparr>Date = ''2025-01-11'', Groups = Map.empty\<rparr>]\<rparr>"
      "[\<lparr>Year = 2025, Month = 1, Day = 10\<rparr>, \<lparr>Year = 2025, Month = 1, Day = 11\<rparr>]"]
  by (simp add: fmt_2025_01_10 fmt_2025_01_11 prev_2025_01_10 prev_2025_01_11)

section \<open>Properties of postSchedule\<close>

lemma postSchedule_shape:
  "postSchedule d isUpdate more' =
     ''*'' @ (if \<not> isUpdate then titleNew else if more' then titleWorse else titleBetter)
        @ toDM (Date d) @ ''*'' @ [CHR 0x0A]
     @ labelPower @ '': '' @ (case Groups d groupPower of Some g \<Rightarrow> Text g
          | None \<Rightarrow> [CHR 0xD0, CHR 0xBD] @ ''/'' @ [CHR 0xD0, CHR 0xB4]) @ [CHR 0x0A]
     @ labelWater @ '': '' @ (case Groups d groupWater of Some g \<Rightarrow> Text g
          | None \<Rightarrow> [CHR 0xD0, CHR 0xBD] @ ''/'' @ [CHR 0xD0, CHR 0xB4])"
  by (simp add: postSchedule_def formatLine_def split: option.splits)

lemma titles_no_newline:
  "CHR 0x0A \<notin> set (if \<not> isUpdate then titleNew else if more' then titleWorse else titleBetter)"
  by (simp add: titleNew_def titleWorse_def titleBetter_def)

lemma labels_no_newline: "CHR 0x0A \<notin> set labelPower" "CHR 0x0A \<notin> set labelWater"
  by (simp_all add: labelPower_def labelWater_def)

lemma entry_no_newline:
  "(\<forall>g. m k = Some g \<longrightarrow> CHR 0x0A \<notin> set (Text g)) \<Longrightarrow>
   CHR 0x0A \<notin> set (case m k of Some g \<Rightarrow> Text g
          | None \<Rightarrow> [CHR 0xD0, CHR 0xBD] @ ''/'' @ [CHR 0xD0, CHR 0xB4])"
  by (cases "m k") simp_all

lemma count_piece: "x \<notin> set xs \<Longrightarrow> count_list (xs @ ys) x = count_list ys x"
  by (simp add: count_list_0_iff)

lemma postSchedule_newlines:
  assumes "\<forall>g. Groups d groupPower = Some g \<longrightarrow> CHR 0x0A \<notin> set (Text g)"
    and "\<forall>g. Groups d groupWater = Some g \<longrightarrow> CHR 0x0A \<notin> set (Text g)"
  shows "count_list (postSchedule d isUpdate more') (CHR 0x0A) = 2"
proof -
  let ?t = "if \<not> isUpdate then titleNew else if more' then titleWorse else titleBetter"
  let ?p = "case Groups d groupPower of Some g \<Rightarrow> Text g
          | None \<Rightarrow> [CHR 0xD0, CHR 0xBD] @ ''/'' @ [CHR 0xD0, CHR 0xB4]"
  let ?w = "case Groups d groupWater of Some g \<Rightarrow> Text g
          | None \<Rightarrow> [CHR 0xD0, CHR 0xBD] @ ''/'' @ [CHR 0xD0, CHR 0xB4]"
  have p: "CHR 0x0A \<notin> set ?p"
    using assms(1) by (intro entry_no_newline)
  have w: "CHR 0x0A \<notin> set ?w"
    using assms(2) by (intro entry_no_newline)
  have t: "CHR 0x0A \<notin> set ?t"
    by (rule titles_no_newline)
  have m: "postSchedule d isUpdate more' =
      ''*'' @ ?t @ toDM (Date d) @ ''*'' @ [CHR 0x0A] @ labelPower @ '': '' @ ?p @ [CHR 0x0A]
        @ labelWater @ '': '' @ ?w"
    by (rule postSchedule_shape)
  have "count_list (''*'' @ ?t @ toDM (Date d) @ ''*'' @ [CHR 0x0A] @ labelPower @ '': '' @ ?p
        @ [CHR 0x0A] @ labelWater @ '': '' @ ?w) (CHR 0x0A) = 2"
    using p w t toDM_no_newline [of "Date d"] labels_no_newline
    by (simp only: count_list_append count_list_0_iff [THEN iffD2] count_list.simps) simp
  with m show ?thesis by simp
qed

text \<open>
  Claim C7. The message is the title between two asterisks, a line feed, the power line, a
  line feed and the water line, in this order. The title is chosen by the flags: the first
  announcement when \<open>isUpdate\<close> is false, the worsened update when both flags are true, the
  other update otherwise; it ends with \<open>toDM\<close> of the record's date, which for a
  well-formed date \<open>YYYY-MM-DD\<close> is \<open>DD.MM\<close>. Each group line is the group's label, a
  colon and a space, and the text of the group, or the no-data marker when the group is not
  in the record. When no text holds a line feed the message has exactly two line feeds, so
  exactly one line for each tracked group after the title line.
\<close>

theorem postSchedule_message:
  "postSchedule d isUpdate more' =
     ''*'' @ (if \<not> isUpdate then titleNew else if more' then titleWorse else titleBetter)
        @ toDM (Date d) @ ''*'' @ [CHR 0x0A]
     @ labelPower @ '': '' @ (case Groups d groupPower of Some g \<Rightarrow> Text g
          | None \<Rightarrow> [CHR 0xD0, CHR 0xBD] @ ''/'' @ [CHR 0xD0, CHR 0xB4]) @ [CHR 0x0A]
     @ labelWater @ '': '' @ (case Groups d groupWater of Some g \<Rightarrow> Text g
          | None \<Rightarrow> [CHR 0xD0, CHR 0xBD] @ ''/'' @ [CHR 0xD0, CHR 0xB4])
   \<and> (Date d = [y1, y2, y3, y4] @ ''-'' @ [m1, m2] @ ''-'' @ [d1, d2]
        \<and> isDigit y1 \<and> isDigit y2 \<and> isDigit y3 \<and> isDigit y4
        \<and> isDigit m1 \<and> isDigit m2 \<and> isDigit d1 \<and> isDigit d2
        \<and> 1 \<le> digitVal m1 * 10 + digitVal m2 \<and> digitVal m1 * 10 + digitVal m2 \<le> 12
        \<and> 1 \<le> digitVal d1 * 10 + digitVal d2
        \<and> digitVal d1 * 10 + digitVal d2 \<le> daysIn (digitVal m1 * 10 + digitVal m2)
            (int (((digitVal y1 * 10 + digitVal y2) * 10 + digitVal y3) * 10 + digitVal y4))
      \<longrightarrow> toDM (Date d) = [d1, d2] @ ''.'' @ [m1, m2])
   \<and> ((\<forall>g. Groups d groupPower = Some g \<longrightarrow> CHR 0x0A \<notin> set (Text g))
        \<and> (\<forall>g. Groups d groupWater = Some g \<longrightarrow> CHR 0x0A \<notin> set (Text g))
      \<longrightarrow> count_list (postSchedule d isUpdate more') (CHR 0x0A) = 2)"
proof (intro conjI impI)
  show "postSchedule d isUpdate more' =
     ''*'' @ (if \<not> isUpdate then titleNew else if more' then titleWorse else titleBetter)
        @ toDM (Date d) @ ''*'' @ [CHR 0x0A]
     @ labelPower @ '': '' @ (case Groups d groupPower of Some g \<Rightarrow> Text g
          | None \<Rightarrow> [CHR 0xD0, CHR 0xBD] @ ''/'' @ [CHR 0xD0, CHR 0xB4]) @ [CHR 0x0A]
     @ labelWater @ '': '' @ (case Groups d groupWater of Some g \<Rightarrow> Text g
          | None \<Rightarrow> [CHR 0xD0, CHR 0xBD] @ ''/'' @ [CHR 0xD0, CHR 0xB4])"
    by (rule postSchedule_shape)
next
  assume a: "Date d = [y1, y2, y3, y4] @ ''-'' @ [m1, m2] @ ''-'' @ [d1, d2]
        \<and> isDigit y1 \<and> isDigit y2 \<and> isDigit y3 \<and> isDigit y4
        \<and> isDigit m1 \<and> isDigit m2 \<and> isDigit d1 \<and> isDigit d2
        \<and> 1 \<le> digitVal m1 * 10 + digitVal m2 \<and> digitVal m1 * 10 + digitVal m2 \<le> 12
        \<and> 1 \<le> digitVal d1 * 10 + digitVal d2
        \<and> digitVal d1 * 10 + digitVal d2 \<le> daysIn (digitVal m1 * 10 + digitVal m2)
            (int (((digitVal y1 * 10 + digitVal y2) * 10 + digitVal y3) * 10 + digitVal y4))"
  then have "toDM ([y1, y2, y3, y4] @ ''-'' @ [m1, m2] @ ''-'' @ [d1, d2])
      = [d1, d2] @ ''.'' @ [m1, m2]"
    by (intro toDM_wellformed) blast+
  with a show "toDM (Date d) = [d1, d2] @ ''.'' @ [m1, m2]"
    by simp
next
  assume "(\<forall>g. Groups d groupPower = Some g \<longrightarrow> CHR 0x0A \<notin> set (Text g))
        \<and> (\<forall>g. Groups d groupWater = Some g \<longrightarrow> CHR 0x0A \<notin> set (Text g))"
  then show "count_list (postSchedule d isUpdate more') (CHR 0x0A) = 2"
    by (intro postSchedule_newlines) blast+
qed

theorem postSchedule_message_witness:
  "toDM ''2025-03-01'' = ''01.03''
   \<and> count_list (postSchedule
        \<lparr>Date = ''2025-03-01'', Groups = [groupPower \<mapsto> \<lparr>Text = ''x'', Minutes = 120\<rparr>]\<rparr>
        False False) (CHR 0x0A) = 2
   \<and> postSchedule \<lparr>Date = ''2025-03-01'', Groups = [groupPower \<mapsto> \<lparr>Text = ''x'', Minutes = 120\<rparr>]\<rparr>
       False False
     = ''*'' @ titleNew @ ''01.03*'' @ [CHR 0x0A] @ labelPower @ '': x'' @ [CHR 0x0A]
       @ labelWater @ '': '' @ [CHR 0xD0, CHR 0xBD] @ ''/'' @ [CHR 0xD0, CHR 0xB4]"
proof -
  let ?D = "\<lparr>Date = ''2025-03-01'', Groups = [groupPower \<mapsto> \<lparr>Text = ''x'', Minutes = 120\<rparr>]\<rparr>"
  note t = postSchedule_message [of ?D False False "CHR ''2''" "CHR ''0''" "CHR ''2''" "CHR ''5''"
      "CHR ''0''" "CHR ''3''" "CHR ''0''" "CHR ''1''"]
  have w: "Groups ?D groupWater = None"
    using groups_distinct by simp
  have p: "Groups ?D groupPower = Some \<lparr>Text = ''x'', Minutes = 120\<rparr>"
    by simp
  have a: "toDM (Date ?D) = ''01.03''"
    using t [THEN conjunct2, THEN conjunct1]
    by (simp add: isDigit_def digitVal_def daysIn_def)
  have b: "count_list (postSchedule ?D False False) (CHR 0x0A) = 2"
    using t [THEN conjunct2, THEN conjunct2] w by simp
  have c: "postSchedule ?D False False
     = ''*'' @ titleNew @ ''01.03*'' @ [CHR 0x0A] @ labelPower @ '': x'' @ [CHR 0x0A]
       @ labelWater @ '': '' @ [CHR 0xD0, CHR 0xBD] @ ''/'' @ [CHR 0xD0, CHR 0xB4]"
    by (subst t [THEN conjunct1]) (simp only: w p a option.case if_True not_False_eq_True
        GroupInfo.simps append_assoc, simp)
  from a b c show ?thesis by simp
qed

end
